theory Spec2Isabelle
  imports Main
begin

section \<open>Python floats: IEEE-754 binary64 with round-to-nearest-even\<close>

text \<open>
  \<open>mazie_runtime.py\<close> computes on Python \<open>float\<close>s. A float is modelled by its
  IEEE-754 reading: \<open>Finite s m e\<close> is \<open>(-1)^s * m * 2^e\<close> (for a double,
  \<open>m < 2^53\<close> and \<open>-1074 \<le> e \<le> 971\<close>), \<open>Infinity s\<close> is the signed infinity, and
  \<open>NaN\<close> stands for every not-a-number (payloads are not told apart). The sign of a
  zero is kept, so \<open>0.0\<close> and \<open>-0.0\<close> are different values that compare equal.
\<close>

datatype float64 = Finite bool nat int | Infinity bool | NaN

fun is_finite :: "float64 \<Rightarrow> bool" where
  "is_finite (Finite _ _ _) = True"
| "is_finite _ = False"

fun is_nan :: "float64 \<Rightarrow> bool" where
  "is_nan NaN = True"
| "is_nan _ = False"

definition pos_zero :: float64 where
  "pos_zero = Finite False 0 (- 1074)"

definition neg_zero :: float64 where
  "neg_zero = Finite True 0 (- 1074)"

text \<open>The doubles \<open>2.0\<close>, \<open>3.0\<close>, \<open>5.0\<close>, \<open>10.0\<close> and \<open>-2.0\<close>, and the least positive double.\<close>

definition dbl_2 :: float64 where
  "dbl_2 = Finite False 4503599627370496 (- 51)"

definition dbl_3 :: float64 where
  "dbl_3 = Finite False 6755399441055744 (- 51)"

definition dbl_5 :: float64 where
  "dbl_5 = Finite False 5629499534213120 (- 50)"

definition dbl_10 :: float64 where
  "dbl_10 = Finite False 5629499534213120 (- 49)"

definition dbl_neg_2 :: float64 where
  "dbl_neg_2 = Finite True 4503599627370496 (- 51)"

definition dbl_min :: float64 where
  "dbl_min = Finite False 1 (- 1074)"

definition signed :: "bool \<Rightarrow> nat \<Rightarrow> int" where
  "signed s m = (if s then - int m else int m)"

fun bit_length :: "nat \<Rightarrow> nat" where
  "bit_length n = (if n = 0 then 0 else Suc (bit_length (n div 2)))"

declare bit_length.simps [simp del]

text \<open>\<open>scaled p q e\<close> is the fraction \<open>p / (q * 2^e)\<close> as numerator and denominator.\<close>

definition scaled :: "nat \<Rightarrow> nat \<Rightarrow> int \<Rightarrow> nat \<times> nat" where
  "scaled p q e = (if 0 \<le> e then (p, q * 2 ^ nat e) else (p * 2 ^ nat (- e), q))"

definition tie_even :: "nat \<Rightarrow> nat \<Rightarrow> nat \<Rightarrow> nat" where
  "tie_even m r d = (if d < 2 * r \<or> (2 * r = d \<and> odd m) then m + 1 else m)"

text \<open>\<open>round_half_even n d\<close> is \<open>n / d\<close> rounded to the nearest integer, ties to even.\<close>

definition round_half_even :: "nat \<Rightarrow> nat \<Rightarrow> nat" where
  "round_half_even n d = tie_even (n div d) (n mod d) d"

text \<open>
  \<open>round_float64 s p q\<close> rounds the exact magnitude \<open>p / q\<close> (\<open>q > 0\<close>) with sign
  \<open>s\<close> to the nearest double, ties to even. With \<open>d\<close> the difference of the bit
  lengths of \<open>p\<close> and \<open>q\<close>, \<open>exponent_of p q d\<close> is the exponent at which the
  significand has 53 bits, or the least exponent \<open>-1074\<close> (subnormals);
  \<open>round_at\<close> rounds the significand at that exponent, and \<open>pack\<close> renormalises a
  significand that rounded up to \<open>2^53\<close> and turns a result beyond the largest double
  into an infinity.
\<close>

definition exponent_of :: "nat \<Rightarrow> nat \<Rightarrow> int \<Rightarrow> int" where
  "exponent_of p q d =
     max (- 1074) (if snd (scaled p q d) \<le> fst (scaled p q d) then d - 52 else d - 53)"

definition pack :: "bool \<Rightarrow> nat \<Rightarrow> int \<Rightarrow> float64" where
  "pack s m e =
     (if m = 2 ^ 53
      then (if 971 < e + 1 then Infinity s else Finite s (2 ^ 52) (e + 1))
      else (if 971 < e then Infinity s else Finite s m e))"

definition round_at :: "bool \<Rightarrow> nat \<Rightarrow> nat \<Rightarrow> int \<Rightarrow> float64" where
  "round_at s p q e = pack s (round_half_even (fst (scaled p q e)) (snd (scaled p q e))) e"

definition round_float64 :: "bool \<Rightarrow> nat \<Rightarrow> nat \<Rightarrow> float64" where
  "round_float64 s p q =
     (if p = 0 then Finite s 0 (- 1074)
      else round_at s p q (exponent_of p q (int (bit_length p) - int (bit_length q))))"

text \<open>\<open>round_dyadic s p e\<close> rounds \<open>p * 2^e\<close>.\<close>

definition round_dyadic :: "bool \<Rightarrow> nat \<Rightarrow> int \<Rightarrow> float64" where
  "round_dyadic s p e = round_float64 s (fst (scaled p 1 (- e))) (snd (scaled p 1 (- e)))"

text \<open>
  \<open>round_signed zs z k\<close> rounds the integer \<open>z\<close> times \<open>2^k\<close>; an exact zero takes the
  sign \<open>zs\<close>. \<open>align x e k\<close> rescales \<open>x * 2^e\<close> to the exponent \<open>k \<le> e\<close>.
\<close>

definition round_signed :: "bool \<Rightarrow> int \<Rightarrow> int \<Rightarrow> float64" where
  "round_signed zs z k = round_dyadic (if z = 0 then zs else z < 0) (nat \<bar>z\<bar>) k"

definition align :: "int \<Rightarrow> int \<Rightarrow> int \<Rightarrow> int" where
  "align x e k = x * 2 ^ nat (e - k)"

fun fneg :: "float64 \<Rightarrow> float64" where
  "fneg (Finite s m e) = Finite (\<not> s) m e"
| "fneg (Infinity s) = Infinity (\<not> s)"
| "fneg NaN = NaN"

fun fadd :: "float64 \<Rightarrow> float64 \<Rightarrow> float64" where
  "fadd (Finite s m e) (Finite t n f) =
     round_signed (s \<and> t)
       (align (signed s m) e (min e f) + align (signed t n) f (min e f)) (min e f)"
| "fadd (Finite s m e) (Infinity t) = Infinity t"
| "fadd (Infinity s) (Finite t n f) = Infinity s"
| "fadd (Infinity s) (Infinity t) = (if s = t then Infinity s else NaN)"
| "fadd NaN y = NaN"
| "fadd x NaN = NaN"

definition fsub :: "float64 \<Rightarrow> float64 \<Rightarrow> float64" where
  "fsub x y = fadd x (fneg y)"

fun fmul :: "float64 \<Rightarrow> float64 \<Rightarrow> float64" where
  "fmul (Finite s m e) (Finite t n f) = round_dyadic (s \<noteq> t) (m * n) (e + f)"
| "fmul (Finite s m e) (Infinity t) = (if m = 0 then NaN else Infinity (s \<noteq> t))"
| "fmul (Infinity s) (Finite t n f) = (if n = 0 then NaN else Infinity (s \<noteq> t))"
| "fmul (Infinity s) (Infinity t) = Infinity (s \<noteq> t)"
| "fmul NaN y = NaN"
| "fmul x NaN = NaN"

fun fdiv :: "float64 \<Rightarrow> float64 \<Rightarrow> float64" where
  "fdiv (Finite s m e) (Finite t n f) =
     (if n = 0 then (if m = 0 then NaN else Infinity (s \<noteq> t))
      else round_float64 (s \<noteq> t) (fst (scaled m n (f - e))) (snd (scaled m n (f - e))))"
| "fdiv (Finite s m e) (Infinity t) = Finite (s \<noteq> t) 0 (- 1074)"
| "fdiv (Infinity s) (Finite t n f) = Infinity (s \<noteq> t)"
| "fdiv (Infinity s) (Infinity t) = NaN"
| "fdiv NaN y = NaN"
| "fdiv x NaN = NaN"

text \<open>The comparison \<open>==\<close> of two floats: by value, so \<open>-0.0 == 0.0\<close>, and never on a NaN.\<close>

fun feq :: "float64 \<Rightarrow> float64 \<Rightarrow> bool" where
  "feq (Finite s m e) (Finite t n f) =
     (align (signed s m) e (min e f) = align (signed t n) f (min e f))"
| "feq (Infinity s) (Infinity t) = (s = t)"
| "feq x y = False"


section \<open>Python values and exceptions\<close>

text \<open>
  The operands the methods can receive: a plain \<open>int\<close> (unbounded), a \<open>bool\<close> (a
  subclass of \<open>int\<close> in Python, so \<open>isinstance(x, (int, float))\<close> accepts it), a
  \<open>float\<close>, a \<open>MazieNum\<close>, or an object of any other type (a string and \<open>None\<close>
  stand for those). Exceptions are values of \<open>error\<close>; a call returns
  \<open>error + 'a\<close>, \<open>Inl\<close> being the raised exception.
\<close>

datatype error =
    TypeError string
  | ZeroDivisionError string
  | OverflowError string

record MazieMode =
  div0_identity :: bool

text \<open>The field \<open>value\<close> of the source is \<open>num_value\<close> here.\<close>

record MazieNum =
  num_value :: float64
  mode :: MazieMode

datatype plain = PyInt int | PyBool bool | PyFloat float64

datatype pyobj = Plain plain | Num MazieNum | PyStr string | PyNone

text \<open>\<open>NumberLike = Union[int, float, "MazieNum"]\<close>: what \<open>_as_num\<close> accepts.\<close>

fun is_number_like :: "pyobj \<Rightarrow> bool" where
  "is_number_like (Plain _) = True"
| "is_number_like (Num _) = True"
| "is_number_like _ = False"

text \<open>The default \<open>MazieMode()\<close>: \<open>div0_identity = True\<close>.\<close>

definition default_mode :: MazieMode where
  "default_mode = \<lparr>div0_identity = True\<rparr>"

text \<open>
  \<open>float(x)\<close> on an \<open>int\<close> rounds to the nearest double and raises OverflowError
  when the integer is beyond the range of a double; on a \<open>float\<close> it is the identity.
\<close>

definition float_of_int :: "int \<Rightarrow> error + float64" where
  "float_of_int i =
     (case round_float64 (i < 0) (nat \<bar>i\<bar>) 1 of
        Infinity s \<Rightarrow> Inl (OverflowError ''int too large to convert to float'')
      | v \<Rightarrow> Inr v)"

fun py_float :: "plain \<Rightarrow> error + float64" where
  "py_float (PyInt i) = float_of_int i"
| "py_float (PyBool b) = float_of_int (if b then 1 else 0)"
| "py_float (PyFloat v) = Inr v"

text \<open>\<open>a / b\<close> on two floats: Python raises on a zero divisor, of either sign.\<close>

definition float_truediv :: "float64 \<Rightarrow> float64 \<Rightarrow> error + float64" where
  "float_truediv a b =
     (if feq b pos_zero then Inl (ZeroDivisionError ''float division by zero'')
      else Inr (fdiv a b))"

fun type_name :: "pyobj \<Rightarrow> string" where
  "type_name (Plain (PyInt _)) = ''int''"
| "type_name (Plain (PyBool _)) = ''bool''"
| "type_name (Plain (PyFloat _)) = ''float''"
| "type_name (Num _) = ''MazieNum''"
| "type_name (PyStr _) = ''str''"
| "type_name PyNone = ''NoneType''"

section \<open>The runtime: \<open>mazie_runtime.py\<close>\<close>

text \<open>\<open>_as_num(x, mode)\<close>\<close>

fun as_num :: "pyobj \<Rightarrow> MazieMode \<Rightarrow> error + MazieNum" where
  "as_num (Num x) m = Inr \<lparr>num_value = num_value x, mode = m\<rparr>"
| "as_num (Plain x) m =
     (case py_float x of
        Inl e \<Rightarrow> Inl e
      | Inr v \<Rightarrow> Inr \<lparr>num_value = v, mode = m\<rparr>)"
| "as_num x m =
     Inl (TypeError (''Unsupported type: <class '' @ [CHR 0x27] @ type_name x @ [CHR 0x27] @ ''>''))"

text \<open>\<open>MazieNum.unwrap\<close>: \<open>float(self.value)\<close>, the identity on a float.\<close>

definition unwrap :: "MazieNum \<Rightarrow> float64" where
  "unwrap self = num_value self"

text \<open>\<open>MazieNum.__add__\<close>, \<open>__sub__\<close>, \<open>__mul__\<close>\<close>

definition MazieNum_add :: "MazieNum \<Rightarrow> pyobj \<Rightarrow> error + MazieNum" where
  "MazieNum_add self other =
     (case as_num other (mode self) of
        Inl e \<Rightarrow> Inl e
      | Inr o' \<Rightarrow> Inr \<lparr>num_value = fadd (num_value self) (num_value o'), mode = mode self\<rparr>)"

definition MazieNum_sub :: "MazieNum \<Rightarrow> pyobj \<Rightarrow> error + MazieNum" where
  "MazieNum_sub self other =
     (case as_num other (mode self) of
        Inl e \<Rightarrow> Inl e
      | Inr o' \<Rightarrow> Inr \<lparr>num_value = fsub (num_value self) (num_value o'), mode = mode self\<rparr>)"

definition MazieNum_mul :: "MazieNum \<Rightarrow> pyobj \<Rightarrow> error + MazieNum" where
  "MazieNum_mul self other =
     (case as_num other (mode self) of
        Inl e \<Rightarrow> Inl e
      | Inr o' \<Rightarrow> Inr \<lparr>num_value = fmul (num_value self) (num_value o'), mode = mode self\<rparr>)"

text \<open>\<open>MazieNum.__truediv__\<close>: the zero test is \<open>o.value == 0.0\<close>.\<close>

definition MazieNum_truediv :: "MazieNum \<Rightarrow> pyobj \<Rightarrow> error + MazieNum" where
  "MazieNum_truediv self other =
     (case as_num other (mode self) of
        Inl e \<Rightarrow> Inl e
      | Inr o' \<Rightarrow>
          if feq (num_value o') pos_zero then
            if div0_identity (mode self)
            then Inr \<lparr>num_value = num_value self, mode = mode self\<rparr>
            else Inl (ZeroDivisionError ''division by zero'')
          else
            (case float_truediv (num_value self) (num_value o') of
               Inl e \<Rightarrow> Inl e
             | Inr v \<Rightarrow> Inr \<lparr>num_value = v, mode = mode self\<rparr>))"

text \<open>
  The reflected methods \<open>__radd__\<close>, \<open>__rsub__\<close>, \<open>__rmul__\<close>, \<open>__rtruediv__\<close>:
  \<open>_as_num(other, self.mode).__op__(self)\<close>.
\<close>

definition MazieNum_radd :: "MazieNum \<Rightarrow> pyobj \<Rightarrow> error + MazieNum" where
  "MazieNum_radd self other =
     (case as_num other (mode self) of
        Inl e \<Rightarrow> Inl e
      | Inr o' \<Rightarrow> MazieNum_add o' (Num self))"

definition MazieNum_rsub :: "MazieNum \<Rightarrow> pyobj \<Rightarrow> error + MazieNum" where
  "MazieNum_rsub self other =
     (case as_num other (mode self) of
        Inl e \<Rightarrow> Inl e
      | Inr o' \<Rightarrow> MazieNum_sub o' (Num self))"

definition MazieNum_rmul :: "MazieNum \<Rightarrow> pyobj \<Rightarrow> error + MazieNum" where
  "MazieNum_rmul self other =
     (case as_num other (mode self) of
        Inl e \<Rightarrow> Inl e
      | Inr o' \<Rightarrow> MazieNum_mul o' (Num self))"

definition MazieNum_rtruediv :: "MazieNum \<Rightarrow> pyobj \<Rightarrow> error + MazieNum" where
  "MazieNum_rtruediv self other =
     (case as_num other (mode self) of
        Inl e \<Rightarrow> Inl e
      | Inr o' \<Rightarrow> MazieNum_truediv o' (Num self))"

text \<open>\<open>MazieNum.__neg__\<close>\<close>

definition MazieNum_neg :: "MazieNum \<Rightarrow> MazieNum" where
  "MazieNum_neg self = \<lparr>num_value = fneg (num_value self), mode = mode self\<rparr>"

text \<open>\<open>MazieNum.__eq__\<close>: \<open>float(other)\<close> can raise on a plain \<open>int\<close>.\<close>

fun MazieNum_eq :: "MazieNum \<Rightarrow> pyobj \<Rightarrow> error + bool" where
  "MazieNum_eq self (Num other) = Inr (feq (num_value self) (num_value other))"
| "MazieNum_eq self (Plain other) =
     (case py_float other of
        Inl e \<Rightarrow> Inl e
      | Inr v \<Rightarrow> Inr (feq (num_value self) v))"
| "MazieNum_eq self other = Inr False"

text \<open>
  \<open>M(x, *, mode=None)\<close>: \<open>MazieNum(float(x), mode=mode or MazieMode())\<close>. A
  \<open>MazieMode\<close> instance is always truthy, so \<open>mode or MazieMode()\<close> is the default
  only for \<open>None\<close>.
\<close>

definition M :: "plain \<Rightarrow> MazieMode option \<Rightarrow> error + MazieNum" where
  "M x md =
     (case py_float x of
        Inl e \<Rightarrow> Inl e
      | Inr v \<Rightarrow> Inr \<lparr>num_value = v,
                       mode = (case md of None \<Rightarrow> default_mode | Some m \<Rightarrow> m)\<rparr>)"


section \<open>Facts about the float operations and the coercion\<close>

lemma bit_length_0: "bit_length 0 = 0"
  by (simp add: bit_length.simps)

lemma bit_length_1: "bit_length 1 = 1"
  by (simp add: bit_length.simps)

lemma bit_length_Bit0: "bit_length (numeral (Num.Bit0 k)) = Suc (bit_length (numeral k))"
  by (subst bit_length.simps) simp

lemma bit_length_Bit1: "bit_length (numeral (Num.Bit1 k)) = Suc (bit_length (numeral k))"
  by (subst bit_length.simps) simp

lemmas float_eval =
  float_of_int_def round_float64_def round_at_def exponent_of_def pack_def
  round_dyadic_def round_signed_def align_def scaled_def round_half_even_def tie_even_def
  bit_length_0 bit_length_1 bit_length_Bit0 bit_length_Bit1
  signed_def pos_zero_def neg_zero_def fsub_def
  dbl_2_def dbl_3_def dbl_5_def dbl_10_def dbl_neg_2_def dbl_min_def

lemma feq_zero_iff: "feq (Finite s m e) pos_zero \<longleftrightarrow> m = 0"
  by (simp add: pos_zero_def signed_def align_def)

lemma feq_neg_zero: "feq neg_zero pos_zero"
  by (simp add: neg_zero_def feq_zero_iff)

lemma feq_pos_zero: "feq pos_zero pos_zero"
  by (simp add: pos_zero_def feq_zero_iff [symmetric])

lemma round_float64_not_nan: "\<not> is_nan (round_float64 s p q)"
  by (simp add: round_float64_def round_at_def pack_def)

lemma round_dyadic_not_nan: "\<not> is_nan (round_dyadic s p e)"
  by (simp add: round_dyadic_def round_float64_not_nan)

lemma round_signed_not_nan: "\<not> is_nan (round_signed zs z k)"
  by (simp add: round_signed_def round_dyadic_not_nan)

lemma feq_refl: "\<not> is_nan x \<Longrightarrow> feq x x"
  by (cases x) simp_all

lemma fadd_commute: "fadd x y = fadd y x"
proof (cases x; cases y)
  fix s m e t n f
  assume xy: "x = Finite s m e" "y = Finite t n f"
  have "(s \<and> t) = (t \<and> s)"
    by auto
  then show ?thesis
    by (simp add: xy min.commute add.commute)
qed simp_all

lemma fmul_commute: "fmul x y = fmul y x"
proof (cases x; cases y)
  fix s m e t n f
  assume xy: "x = Finite s m e" "y = Finite t n f"
  have "(s = (\<not> t)) = (t = (\<not> s))"
    by auto
  then show ?thesis
    by (simp add: xy mult.commute add.commute)
next
  fix s m e t
  assume "x = Finite s m e" "y = Infinity t"
  then show ?thesis
    by auto
next
  fix s t n f
  assume "x = Infinity s" "y = Finite t n f"
  then show ?thesis
    by auto
next
  fix s t
  assume "x = Infinity s" "y = Infinity t"
  then show ?thesis
    by auto
qed simp_all

lemma fadd_finite_not_nan: "is_finite x \<Longrightarrow> is_finite y \<Longrightarrow> \<not> is_nan (fadd x y)"
  by (cases x; cases y) (simp_all add: round_signed_not_nan)

lemma fmul_finite_not_nan: "is_finite x \<Longrightarrow> is_finite y \<Longrightarrow> \<not> is_nan (fmul x y)"
  by (cases x; cases y) (simp_all add: round_dyadic_not_nan)

lemma float_of_int_cases:
  "(\<exists>v. float_of_int i = Inr v \<and> is_finite v) \<or> (\<exists>msg. float_of_int i = Inl (OverflowError msg))"
  by (cases "round_float64 (i < 0) (nat \<bar>i\<bar>) 1")
     (use round_float64_not_nan[of "i < 0" "nat \<bar>i\<bar>" 1] in \<open>auto simp: float_of_int_def\<close>)

lemma py_float_error: "py_float x = Inl e \<Longrightarrow> \<exists>msg. e = OverflowError msg"
proof (cases x)
  case (PyInt i)
  assume "py_float x = Inl e"
  with PyInt float_of_int_cases [of i] show ?thesis
    by auto
next
  case (PyBool b)
  assume "py_float x = Inl e"
  with PyBool float_of_int_cases [of "if b then 1 else 0"] show ?thesis
    by auto
next
  case (PyFloat v)
  assume "py_float x = Inl e"
  with PyFloat show ?thesis
    by simp
qed

lemma as_num_Inr_mode: "as_num d m = Inr c \<Longrightarrow> mode c = m"
  by (cases d) (auto split: sum.splits)

lemma as_num_TypeError:
  "(\<exists>msg. as_num d m = Inl (TypeError msg)) \<longleftrightarrow> (\<forall>p. d \<noteq> Plain p) \<and> (\<forall>n. d \<noteq> Num n)"
  by (cases d) (auto split: sum.splits dest: py_float_error)


subsection \<open>The model on known doubles\<close>

text \<open>
  The float operations on some known doubles: \<open>0.1 + 0.2\<close>, \<open>1.0 / 3.0\<close>, an overflow, an
  underflow to zero, a subnormal product, the signs of exact zeros, and the rounding of
  integers that are not doubles.
\<close>

lemma fadd_tenth_fifth:
  "fadd (Finite False 7205759403792794 (- 56)) (Finite False 7205759403792794 (- 55)) =
     Finite False 5404319552844596 (- 54)"
  by (simp add: float_eval)

lemma fdiv_one_three:
  "fdiv (Finite False 4503599627370496 (- 52)) (Finite False 6755399441055744 (- 51)) =
     Finite False 6004799503160661 (- 54)"
  by (simp add: float_eval)

lemma fadd_overflow:
  "fadd (Finite False 9007199254740991 971) (Finite False 9007199254740991 971) =
     Infinity False"
  by (simp add: float_eval)

lemma fmul_underflow:
  "fmul (Finite False 1 (- 1074)) (Finite False 4503599627370496 (- 53)) =
     Finite False 0 (- 1074)"
  by (simp add: float_eval)

lemma fmul_subnormal:
  "fmul (Finite False 5060056332682765 (- 1074)) (Finite False 5404319552844595 (- 54)) =
     Finite False 1518016899804829 (- 1074)"
  by (simp add: float_eval)

lemma fsub_cancel:
  "fsub (Finite True 5629499534213120 (- 50)) (Finite True 5629499534213120 (- 50)) =
     Finite False 0 (- 1074)"
  by (simp add: float_eval)

lemma fadd_neg_zeros:
  "fadd (Finite True 0 (- 1074)) (Finite True 0 (- 1074)) = Finite True 0 (- 1074)"
  by (simp add: float_eval)

lemma float_of_int_tie:
  "float_of_int (2 ^ 53 + 1) = Inr (Finite False 4503599627370496 1)"
  by (simp add: float_eval)

lemma float_of_int_tie_up:
  "float_of_int (2 ^ 53 + 3) = Inr (Finite False 4503599627370498 1)"
  by (simp add: float_eval)

lemma float_of_int_neg:
  "float_of_int (- 7) = Inr (Finite True 7881299347898368 (- 50))"
  by (simp add: float_eval)

text \<open>\<open>float(2 ** 1024)\<close> raises: the integer is beyond the largest double.\<close>

lemma float_of_int_overflow:
  "float_of_int (2 ^ 1024) = Inl (OverflowError ''int too large to convert to float'')"
  by (simp add: float_eval)

section \<open>The claims\<close>

lemma M_float: "M (PyFloat x) md = Inr \<lparr>num_value = x, mode = (case md of None \<Rightarrow> default_mode | Some m \<Rightarrow> m)\<rparr>"
  by (simp add: M_def)

lemma truediv_coerced:
  "as_num d (mode a) = Inr c \<Longrightarrow>
   MazieNum_truediv a d =
     (if feq (num_value c) pos_zero
      then if div0_identity (mode a) then Inr \<lparr>num_value = num_value a, mode = mode a\<rparr>
           else Inl (ZeroDivisionError ''division by zero'')
      else Inr \<lparr>num_value = fdiv (num_value a) (num_value c), mode = mode a\<rparr>)"
  by (simp add: MazieNum_truediv_def float_truediv_def)

text \<open>
  C1. Dividing by a divisor whose value is zero, when the dividend's mode has
  \<open>div0_identity = True\<close> (which the default mode has), returns a MazieNum with the
  dividend's value unchanged and the dividend's mode. The divisor is any operand that
  coerces to a zero value: a MazieNum, a float, an int or a bool. The property does not
  need the dividend to be finite. The last part is the case \<open>M(x) / M(0.0)\<close>.
\<close>

theorem C1_div_zero_identity:
  "div0_identity default_mode \<and>
   (\<forall>x m d c. div0_identity m \<longrightarrow> as_num d m = Inr c \<longrightarrow> feq (num_value c) pos_zero \<longrightarrow>
      MazieNum_truediv \<lparr>num_value = x, mode = m\<rparr> d = Inr \<lparr>num_value = x, mode = m\<rparr>) \<and>
   (\<forall>x. \<exists>a z. M (PyFloat x) None = Inr a \<and> M (PyFloat pos_zero) None = Inr z \<and>
      MazieNum_truediv a (Num z) = Inr a \<and> unwrap a = x \<and> mode a = default_mode)"
proof (intro conjI allI impI)
  show "div0_identity default_mode"
    by (simp add: default_mode_def)
next
  fix x m d c
  assume "div0_identity m" "as_num d m = Inr c" "feq (num_value c) pos_zero"
  then show "MazieNum_truediv \<lparr>num_value = x, mode = m\<rparr> d = Inr \<lparr>num_value = x, mode = m\<rparr>"
    by (simp add: truediv_coerced)
next
  fix x
  show "\<exists>a z. M (PyFloat x) None = Inr a \<and> M (PyFloat pos_zero) None = Inr z \<and>
      MazieNum_truediv a (Num z) = Inr a \<and> unwrap a = x \<and> mode a = default_mode"
    by (simp add: M_float truediv_coerced feq_pos_zero default_mode_def unwrap_def)
qed

theorem C1_div_zero_identity_witness:
  "div0_identity default_mode \<and>
   as_num (Plain (PyInt 0)) default_mode = Inr \<lparr>num_value = pos_zero, mode = default_mode\<rparr> \<and>
   feq pos_zero pos_zero \<and>
   MazieNum_truediv \<lparr>num_value = dbl_5, mode = default_mode\<rparr>
       (Plain (PyInt 0))
     = Inr \<lparr>num_value = dbl_5, mode = default_mode\<rparr>"
proof -
  have c: "as_num (Plain (PyInt 0)) default_mode = Inr \<lparr>num_value = pos_zero, mode = default_mode\<rparr>"
    by (simp add: float_eval)
  have z: "feq (num_value \<lparr>num_value = pos_zero, mode = default_mode\<rparr>) pos_zero"
    by (simp add: feq_pos_zero)
  have d: "div0_identity default_mode"
    by (simp add: default_mode_def)
  from C1_div_zero_identity d c z feq_pos_zero show ?thesis
    by blast
qed





text \<open>
  C5. The zero test of the division is the float comparison with \<open>0.0\<close>: \<open>-0.0\<close>
  passes it, so \<open>M(x) / M(-0.0)\<close> under the default mode returns \<open>x\<close> unchanged, for
  every float \<open>x\<close>; and no finite divisor other than the two zeros passes it, however
  small (nor an infinity or a NaN), so that the division is carried out for those.
\<close>

theorem C5_negative_zero_is_zero:
  "feq neg_zero pos_zero \<and>
   (\<exists>a z. M (PyFloat x) None = Inr a \<and> M (PyFloat neg_zero) None = Inr z \<and>
      MazieNum_truediv a (Num z) = Inr a \<and> unwrap a = x) \<and>
   (div0_identity m \<longrightarrow>
      MazieNum_truediv \<lparr>num_value = x, mode = m\<rparr> (Plain (PyFloat neg_zero)) =
        Inr \<lparr>num_value = x, mode = m\<rparr>) \<and>
   (feq v pos_zero \<longleftrightarrow> (\<exists>s e. v = Finite s 0 e)) \<and>
   (\<not> (\<exists>s e. v = Finite s 0 e) \<longrightarrow>
      MazieNum_truediv \<lparr>num_value = x, mode = m\<rparr> (Plain (PyFloat v)) =
        Inr \<lparr>num_value = fdiv x v, mode = m\<rparr>)"
proof -
  have zero: "feq v pos_zero \<longleftrightarrow> (\<exists>s e. v = Finite s 0 e)"
    by (cases v) (simp_all add: feq_zero_iff, simp_all add: pos_zero_def)
  have c: "as_num (Plain (PyFloat w)) m = Inr \<lparr>num_value = w, mode = m\<rparr>" for w
    by simp
  have 1: "\<exists>a z. M (PyFloat x) None = Inr a \<and> M (PyFloat neg_zero) None = Inr z \<and>
      MazieNum_truediv a (Num z) = Inr a \<and> unwrap a = x"
    by (simp add: M_float truediv_coerced feq_neg_zero default_mode_def unwrap_def)
  have 2: "div0_identity m \<longrightarrow>
      MazieNum_truediv \<lparr>num_value = x, mode = m\<rparr> (Plain (PyFloat neg_zero)) =
        Inr \<lparr>num_value = x, mode = m\<rparr>"
    by (simp add: truediv_coerced feq_neg_zero)
  have 3: "\<not> (\<exists>s e. v = Finite s 0 e) \<longrightarrow>
      MazieNum_truediv \<lparr>num_value = x, mode = m\<rparr> (Plain (PyFloat v)) =
        Inr \<lparr>num_value = fdiv x v, mode = m\<rparr>"
    using zero by (simp add: truediv_coerced)
  from feq_neg_zero 1 2 zero 3 show ?thesis
    by blast
qed

theorem C5_negative_zero_is_zero_witness:
  "div0_identity default_mode \<and>
   MazieNum_truediv \<lparr>num_value = NaN, mode = default_mode\<rparr> (Plain (PyFloat neg_zero)) =
     Inr \<lparr>num_value = NaN, mode = default_mode\<rparr> \<and>
   \<not> (\<exists>s e. dbl_min = Finite s 0 e) \<and>
   MazieNum_truediv \<lparr>num_value = dbl_min, mode = default_mode\<rparr> (Plain (PyFloat dbl_min)) =
     Inr \<lparr>num_value = Finite False 4503599627370496 (- 52), mode = default_mode\<rparr>"
proof -
  have d: "div0_identity default_mode"
    by (simp add: default_mode_def)
  have nz: "\<not> (\<exists>s e. dbl_min = Finite s 0 e)"
    by (simp add: dbl_min_def)
  have q: "fdiv dbl_min dbl_min = Finite False 4503599627370496 (- 52)"
    by (simp add: float_eval dbl_min_def)
  from C5_negative_zero_is_zero [of NaN default_mode dbl_min] d
  have 1: "MazieNum_truediv \<lparr>num_value = NaN, mode = default_mode\<rparr> (Plain (PyFloat neg_zero)) =
     Inr \<lparr>num_value = NaN, mode = default_mode\<rparr>"
    by blast
  from C5_negative_zero_is_zero [of dbl_min default_mode dbl_min] nz q
  have 2: "MazieNum_truediv \<lparr>num_value = dbl_min, mode = default_mode\<rparr> (Plain (PyFloat dbl_min)) =
     Inr \<lparr>num_value = Finite False 4503599627370496 (- 52), mode = default_mode\<rparr>"
    by simp
  from d nz 1 2 show ?thesis
    by blast
qed

lemma add_coerced:
  "as_num d (mode a) = Inr c \<Longrightarrow>
   MazieNum_add a d = Inr \<lparr>num_value = fadd (num_value a) (num_value c), mode = mode a\<rparr>"
  by (simp add: MazieNum_add_def)

lemma sub_coerced:
  "as_num d (mode a) = Inr c \<Longrightarrow>
   MazieNum_sub a d = Inr \<lparr>num_value = fsub (num_value a) (num_value c), mode = mode a\<rparr>"
  by (simp add: MazieNum_sub_def)

lemma mul_coerced:
  "as_num d (mode a) = Inr c \<Longrightarrow>
   MazieNum_mul a d = Inr \<lparr>num_value = fmul (num_value a) (num_value c), mode = mode a\<rparr>"
  by (simp add: MazieNum_mul_def)

lemma as_num_Num: "as_num (Num b) m = Inr \<lparr>num_value = num_value b, mode = m\<rparr>"
  by simp

lemma radd_coerced:
  "as_num d (mode a) = Inr c \<Longrightarrow>
   MazieNum_radd a d = Inr \<lparr>num_value = fadd (num_value c) (num_value a), mode = mode a\<rparr>"
  by (simp add: MazieNum_radd_def add_coerced [OF as_num_Num] as_num_Inr_mode)

lemma rsub_coerced:
  "as_num d (mode a) = Inr c \<Longrightarrow>
   MazieNum_rsub a d = Inr \<lparr>num_value = fsub (num_value c) (num_value a), mode = mode a\<rparr>"
  by (simp add: MazieNum_rsub_def sub_coerced [OF as_num_Num] as_num_Inr_mode)

lemma rmul_coerced:
  "as_num d (mode a) = Inr c \<Longrightarrow>
   MazieNum_rmul a d = Inr \<lparr>num_value = fmul (num_value c) (num_value a), mode = mode a\<rparr>"
  by (simp add: MazieNum_rmul_def mul_coerced [OF as_num_Num] as_num_Inr_mode)

lemma rtruediv_coerced:
  "as_num d (mode a) = Inr c \<Longrightarrow>
   MazieNum_rtruediv a d =
     (if feq (num_value a) pos_zero
      then if div0_identity (mode a) then Inr \<lparr>num_value = num_value c, mode = mode a\<rparr>
           else Inl (ZeroDivisionError ''division by zero'')
      else Inr \<lparr>num_value = fdiv (num_value c) (num_value a), mode = mode a\<rparr>)"
  by (simp add: MazieNum_rtruediv_def truediv_coerced [OF as_num_Num] as_num_Inr_mode)

text \<open>
  C3. A reflected method coerces its left operand with the mode of \<open>self\<close>, the right
  operand, and applies the forward method to the coerced value, with \<open>self\<close> as the
  right operand: the coerced value is the left argument of the float operation. So
  \<open>5 - M(3)\<close>, that is \<open>M(3).__rsub__(5)\<close>, unwraps to \<open>2.0 = 5.0 - 3.0\<close>, and not
  to \<open>3.0 - 5.0 = -2.0\<close>.
\<close>

theorem C3_reflected_operations:
  "(as_num d (mode self) = Inr c \<longrightarrow>
      mode c = mode self \<and>
      MazieNum_radd self d = MazieNum_add c (Num self) \<and>
      MazieNum_rsub self d = MazieNum_sub c (Num self) \<and>
      MazieNum_rmul self d = MazieNum_mul c (Num self) \<and>
      MazieNum_rtruediv self d = MazieNum_truediv c (Num self) \<and>
      MazieNum_radd self d =
        Inr \<lparr>num_value = fadd (num_value c) (num_value self), mode = mode self\<rparr> \<and>
      MazieNum_rsub self d =
        Inr \<lparr>num_value = fsub (num_value c) (num_value self), mode = mode self\<rparr> \<and>
      MazieNum_rmul self d =
        Inr \<lparr>num_value = fmul (num_value c) (num_value self), mode = mode self\<rparr> \<and>
      (\<not> feq (num_value self) pos_zero \<longrightarrow>
         MazieNum_rtruediv self d =
           Inr \<lparr>num_value = fdiv (num_value c) (num_value self), mode = mode self\<rparr>)) \<and>
   (\<exists>n r. M (PyInt 3) None = Inr n \<and> MazieNum_rsub n (Plain (PyInt 5)) = Inr r \<and>
      unwrap r = dbl_2) \<and>
   fsub dbl_5 dbl_3 = dbl_2 \<and> fsub dbl_3 dbl_5 = dbl_neg_2 \<and> \<not> feq dbl_2 dbl_neg_2"
proof -
  have gen: "as_num d (mode self) = Inr c \<longrightarrow>
      mode c = mode self \<and>
      MazieNum_radd self d = MazieNum_add c (Num self) \<and>
      MazieNum_rsub self d = MazieNum_sub c (Num self) \<and>
      MazieNum_rmul self d = MazieNum_mul c (Num self) \<and>
      MazieNum_rtruediv self d = MazieNum_truediv c (Num self) \<and>
      MazieNum_radd self d =
        Inr \<lparr>num_value = fadd (num_value c) (num_value self), mode = mode self\<rparr> \<and>
      MazieNum_rsub self d =
        Inr \<lparr>num_value = fsub (num_value c) (num_value self), mode = mode self\<rparr> \<and>
      MazieNum_rmul self d =
        Inr \<lparr>num_value = fmul (num_value c) (num_value self), mode = mode self\<rparr> \<and>
      (\<not> feq (num_value self) pos_zero \<longrightarrow>
         MazieNum_rtruediv self d =
           Inr \<lparr>num_value = fdiv (num_value c) (num_value self), mode = mode self\<rparr>)"
  proof
    assume c: "as_num d (mode self) = Inr c"
    have "mode c = mode self"
      using c by (rule as_num_Inr_mode)
    moreover have "MazieNum_radd self d = MazieNum_add c (Num self)"
      using c by (simp add: MazieNum_radd_def)
    moreover have "MazieNum_rsub self d = MazieNum_sub c (Num self)"
      using c by (simp add: MazieNum_rsub_def)
    moreover have "MazieNum_rmul self d = MazieNum_mul c (Num self)"
      using c by (simp add: MazieNum_rmul_def)
    moreover have "MazieNum_rtruediv self d = MazieNum_truediv c (Num self)"
      using c by (simp add: MazieNum_rtruediv_def)
    moreover note radd_coerced [OF c] rsub_coerced [OF c] rmul_coerced [OF c]
    moreover have "\<not> feq (num_value self) pos_zero \<longrightarrow>
         MazieNum_rtruediv self d =
           Inr \<lparr>num_value = fdiv (num_value c) (num_value self), mode = mode self\<rparr>"
      by (simp add: rtruediv_coerced [OF c])
    ultimately show "mode c = mode self \<and>
      MazieNum_radd self d = MazieNum_add c (Num self) \<and>
      MazieNum_rsub self d = MazieNum_sub c (Num self) \<and>
      MazieNum_rmul self d = MazieNum_mul c (Num self) \<and>
      MazieNum_rtruediv self d = MazieNum_truediv c (Num self) \<and>
      MazieNum_radd self d =
        Inr \<lparr>num_value = fadd (num_value c) (num_value self), mode = mode self\<rparr> \<and>
      MazieNum_rsub self d =
        Inr \<lparr>num_value = fsub (num_value c) (num_value self), mode = mode self\<rparr> \<and>
      MazieNum_rmul self d =
        Inr \<lparr>num_value = fmul (num_value c) (num_value self), mode = mode self\<rparr> \<and>
      (\<not> feq (num_value self) pos_zero \<longrightarrow>
         MazieNum_rtruediv self d =
           Inr \<lparr>num_value = fdiv (num_value c) (num_value self), mode = mode self\<rparr>)"
      by blast
  qed
  have three: "py_float (PyInt 3) = Inr dbl_3"
    by (simp add: float_eval dbl_3_def)
  have five: "py_float (PyInt 5) = Inr dbl_5"
    by (simp add: float_eval dbl_5_def)
  have s53: "fsub dbl_5 dbl_3 = dbl_2"
    by (simp add: float_eval dbl_5_def dbl_3_def dbl_2_def)
  have s35: "fsub dbl_3 dbl_5 = dbl_neg_2"
    by (simp add: float_eval dbl_5_def dbl_3_def dbl_neg_2_def)
  have ne: "\<not> feq dbl_2 dbl_neg_2"
    by (simp add: dbl_2_def dbl_neg_2_def align_def signed_def)
  have c5: "as_num (Plain (PyInt 5)) (mode \<lparr>num_value = dbl_3, mode = default_mode\<rparr>) =
      Inr \<lparr>num_value = dbl_5, mode = default_mode\<rparr>"
    using five by simp
  have "M (PyInt 3) None = Inr \<lparr>num_value = dbl_3, mode = default_mode\<rparr>"
    using three by (simp add: M_def)
  moreover have "MazieNum_rsub \<lparr>num_value = dbl_3, mode = default_mode\<rparr> (Plain (PyInt 5)) =
      Inr \<lparr>num_value = dbl_2, mode = default_mode\<rparr>"
    using rsub_coerced [OF c5] by (simp add: s53)
  ultimately have ex: "\<exists>n r. M (PyInt 3) None = Inr n \<and>
      MazieNum_rsub n (Plain (PyInt 5)) = Inr r \<and> unwrap r = dbl_2"
    by (simp add: unwrap_def)
  from gen ex s53 s35 ne show ?thesis
    by blast
qed

theorem C3_reflected_operations_witness:
  "as_num (Plain (PyFloat dbl_5)) \<lparr>div0_identity = False\<rparr> =
     Inr \<lparr>num_value = dbl_5, mode = \<lparr>div0_identity = False\<rparr>\<rparr> \<and>
   MazieNum_rsub \<lparr>num_value = dbl_3, mode = \<lparr>div0_identity = False\<rparr>\<rparr> (Plain (PyFloat dbl_5)) =
     Inr \<lparr>num_value = dbl_2, mode = \<lparr>div0_identity = False\<rparr>\<rparr> \<and>
   \<not> feq dbl_2 pos_zero \<and>
   MazieNum_rtruediv \<lparr>num_value = dbl_2, mode = \<lparr>div0_identity = False\<rparr>\<rparr> (Plain (PyFloat dbl_10)) =
     Inr \<lparr>num_value = dbl_5, mode = \<lparr>div0_identity = False\<rparr>\<rparr>"
proof -
  have c: "as_num (Plain (PyFloat w)) (mode \<lparr>num_value = u, mode = \<lparr>div0_identity = False\<rparr>\<rparr>) =
      Inr \<lparr>num_value = w, mode = \<lparr>div0_identity = False\<rparr>\<rparr>" for u w
    by simp
  have nz: "\<not> feq dbl_2 pos_zero"
    by (simp add: dbl_2_def feq_zero_iff)
  have q: "fdiv dbl_10 dbl_2 = dbl_5"
    by (simp add: float_eval dbl_10_def dbl_2_def dbl_5_def)
  have s: "fsub dbl_5 dbl_3 = dbl_2"
    by (simp add: float_eval)
  note g1 = C3_reflected_operations
         [of "Plain (PyFloat dbl_5)" "\<lparr>num_value = dbl_3, mode = \<lparr>div0_identity = False\<rparr>\<rparr>"
             "\<lparr>num_value = dbl_5, mode = \<lparr>div0_identity = False\<rparr>\<rparr>",
          THEN conjunct1, THEN mp, OF c [of dbl_5 dbl_3]]
  from g1 have "MazieNum_rsub \<lparr>num_value = dbl_3, mode = \<lparr>div0_identity = False\<rparr>\<rparr>
        (Plain (PyFloat dbl_5)) =
      Inr \<lparr>num_value = fsub (num_value \<lparr>num_value = dbl_5, mode = \<lparr>div0_identity = False\<rparr>\<rparr>)
                (num_value \<lparr>num_value = dbl_3, mode = \<lparr>div0_identity = False\<rparr>\<rparr>),
           mode = mode \<lparr>num_value = dbl_3, mode = \<lparr>div0_identity = False\<rparr>\<rparr>\<rparr>"
    by blast
  with s have 1: "MazieNum_rsub \<lparr>num_value = dbl_3, mode = \<lparr>div0_identity = False\<rparr>\<rparr> (Plain (PyFloat dbl_5)) =
     Inr \<lparr>num_value = dbl_2, mode = \<lparr>div0_identity = False\<rparr>\<rparr>"
    by simp
  note g2 = C3_reflected_operations
         [of "Plain (PyFloat dbl_10)" "\<lparr>num_value = dbl_2, mode = \<lparr>div0_identity = False\<rparr>\<rparr>"
             "\<lparr>num_value = dbl_10, mode = \<lparr>div0_identity = False\<rparr>\<rparr>",
          THEN conjunct1, THEN mp, OF c [of dbl_10 dbl_2]]
  from g2 have "\<not> feq (num_value \<lparr>num_value = dbl_2, mode = \<lparr>div0_identity = False\<rparr>\<rparr>) pos_zero \<longrightarrow>
      MazieNum_rtruediv \<lparr>num_value = dbl_2, mode = \<lparr>div0_identity = False\<rparr>\<rparr>
        (Plain (PyFloat dbl_10)) =
      Inr \<lparr>num_value = fdiv (num_value \<lparr>num_value = dbl_10, mode = \<lparr>div0_identity = False\<rparr>\<rparr>)
                (num_value \<lparr>num_value = dbl_2, mode = \<lparr>div0_identity = False\<rparr>\<rparr>),
           mode = mode \<lparr>num_value = dbl_2, mode = \<lparr>div0_identity = False\<rparr>\<rparr>\<rparr>"
    by blast
  with nz q have 2: "MazieNum_rtruediv \<lparr>num_value = dbl_2, mode = \<lparr>div0_identity = False\<rparr>\<rparr> (Plain (PyFloat dbl_10)) =
     Inr \<lparr>num_value = dbl_5, mode = \<lparr>div0_identity = False\<rparr>\<rparr>"
    by simp
  from 1 2 nz show ?thesis
    by simp
qed

lemma truediv_Inr_mode: "MazieNum_truediv a d = Inr r \<Longrightarrow> mode r = mode a"
  by (cases "as_num d (mode a)")
     (auto simp: MazieNum_truediv_def float_truediv_def split: if_splits)

text \<open>
  C4. The result of a binary operation carries the mode of the MazieNum the method was
  invoked on. For \<open>__add__\<close>, \<open>__sub__\<close>, \<open>__mul__\<close>, \<open>__truediv__\<close> that is the left
  operand. The other operand, a plain number or a MazieNum, is coerced to that same
  mode. The reflected methods are invoked on the right operand: the left operand is
  coerced to the mode of the right operand, and the result carries that mode (also when
  a reflected method is called with a MazieNum of another mode on the left).
\<close>

theorem C4_mode_propagation:
  "(MazieNum_add a d = Inr r \<longrightarrow> mode r = mode a) \<and>
   (MazieNum_sub a d = Inr r \<longrightarrow> mode r = mode a) \<and>
   (MazieNum_mul a d = Inr r \<longrightarrow> mode r = mode a) \<and>
   (MazieNum_truediv a d = Inr r \<longrightarrow> mode r = mode a) \<and>
   (MazieNum_radd a d = Inr r \<longrightarrow> mode r = mode a) \<and>
   (MazieNum_rsub a d = Inr r \<longrightarrow> mode r = mode a) \<and>
   (MazieNum_rmul a d = Inr r \<longrightarrow> mode r = mode a) \<and>
   (MazieNum_rtruediv a d = Inr r \<longrightarrow> mode r = mode a) \<and>
   (as_num d m = Inr c \<longrightarrow> mode c = m) \<and>
   (py_float p = Inr v \<longrightarrow> as_num (Plain p) m = Inr \<lparr>num_value = v, mode = m\<rparr>) \<and>
   as_num (Num b) m = Inr \<lparr>num_value = num_value b, mode = m\<rparr>"
proof (intro conjI impI)
  assume "MazieNum_add a d = Inr r"
  then show "mode r = mode a"
    by (auto simp: MazieNum_add_def split: sum.splits)
next
  assume "MazieNum_sub a d = Inr r"
  then show "mode r = mode a"
    by (auto simp: MazieNum_sub_def split: sum.splits)
next
  assume "MazieNum_mul a d = Inr r"
  then show "mode r = mode a"
    by (auto simp: MazieNum_mul_def split: sum.splits)
next
  assume "MazieNum_truediv a d = Inr r"
  then show "mode r = mode a"
    by (rule truediv_Inr_mode)
next
  assume "MazieNum_radd a d = Inr r"
  then show "mode r = mode a"
    by (auto simp: MazieNum_radd_def MazieNum_add_def split: sum.splits dest: as_num_Inr_mode)
next
  assume "MazieNum_rsub a d = Inr r"
  then show "mode r = mode a"
    by (auto simp: MazieNum_rsub_def MazieNum_sub_def split: sum.splits dest: as_num_Inr_mode)
next
  assume "MazieNum_rmul a d = Inr r"
  then show "mode r = mode a"
    by (auto simp: MazieNum_rmul_def MazieNum_mul_def split: sum.splits dest: as_num_Inr_mode)
next
  assume "MazieNum_rtruediv a d = Inr r"
  then obtain c where c: "as_num d (mode a) = Inr c" and r: "MazieNum_truediv c (Num a) = Inr r"
    by (auto simp: MazieNum_rtruediv_def split: sum.splits)
  from r have "mode r = mode c"
    by (rule truediv_Inr_mode)
  with c show "mode r = mode a"
    by (simp add: as_num_Inr_mode)
next
  assume "as_num d m = Inr c"
  then show "mode c = m"
    by (rule as_num_Inr_mode)
next
  assume "py_float p = Inr v"
  then show "as_num (Plain p) m = Inr \<lparr>num_value = v, mode = m\<rparr>"
    by simp
next
  show "as_num (Num b) m = Inr \<lparr>num_value = num_value b, mode = m\<rparr>"
    by simp
qed

theorem C4_mode_propagation_witness:
  "py_float (PyInt 3) = Inr dbl_3 \<and>
   as_num (Plain (PyInt 3)) \<lparr>div0_identity = False\<rparr> =
     Inr \<lparr>num_value = dbl_3, mode = \<lparr>div0_identity = False\<rparr>\<rparr> \<and>
   MazieNum_add \<lparr>num_value = dbl_5, mode = \<lparr>div0_identity = False\<rparr>\<rparr> (Plain (PyInt 3)) =
     Inr \<lparr>num_value = Finite False 4503599627370496 (- 49), mode = \<lparr>div0_identity = False\<rparr>\<rparr> \<and>
   \<not> div0_identity (mode \<lparr>num_value = Finite False 4503599627370496 (- 49),
                             mode = \<lparr>div0_identity = False\<rparr>\<rparr>) \<and>
   MazieNum_rsub \<lparr>num_value = dbl_3, mode = \<lparr>div0_identity = False\<rparr>\<rparr>
       (Num \<lparr>num_value = dbl_5, mode = default_mode\<rparr>) =
     Inr \<lparr>num_value = dbl_2, mode = \<lparr>div0_identity = False\<rparr>\<rparr> \<and>
   mode \<lparr>num_value = dbl_2, mode = \<lparr>div0_identity = False\<rparr>\<rparr> =
     mode \<lparr>num_value = dbl_3, mode = \<lparr>div0_identity = False\<rparr>\<rparr>"
proof -
  have three: "py_float (PyInt 3) = Inr dbl_3"
    by (simp add: float_eval)
  have s: "fadd dbl_5 dbl_3 = Finite False 4503599627370496 (- 49)"
    by (simp add: float_eval)
  have d: "fsub dbl_5 dbl_3 = dbl_2"
    by (simp add: float_eval)
  have c: "as_num (Plain (PyInt 3)) \<lparr>div0_identity = False\<rparr> =
     Inr \<lparr>num_value = dbl_3, mode = \<lparr>div0_identity = False\<rparr>\<rparr>"
    using three by simp
  have add: "MazieNum_add \<lparr>num_value = dbl_5, mode = \<lparr>div0_identity = False\<rparr>\<rparr> (Plain (PyInt 3)) =
     Inr \<lparr>num_value = Finite False 4503599627370496 (- 49), mode = \<lparr>div0_identity = False\<rparr>\<rparr>"
    using three s by (simp add: MazieNum_add_def)
  have rsub: "MazieNum_rsub \<lparr>num_value = dbl_3, mode = \<lparr>div0_identity = False\<rparr>\<rparr>
       (Num \<lparr>num_value = dbl_5, mode = default_mode\<rparr>) =
     Inr \<lparr>num_value = dbl_2, mode = \<lparr>div0_identity = False\<rparr>\<rparr>"
    using d by (simp add: MazieNum_rsub_def MazieNum_sub_def)
  from C4_mode_propagation
         [of "\<lparr>num_value = dbl_5, mode = \<lparr>div0_identity = False\<rparr>\<rparr>" "Plain (PyInt 3)"
             "\<lparr>num_value = Finite False 4503599627370496 (- 49), mode = \<lparr>div0_identity = False\<rparr>\<rparr>"
             "\<lparr>div0_identity = False\<rparr>" "\<lparr>num_value = dbl_3, mode = \<lparr>div0_identity = False\<rparr>\<rparr>"
             "PyInt 3" dbl_3 "\<lparr>num_value = dbl_5, mode = default_mode\<rparr>"] add
  have 1: "\<not> div0_identity (mode \<lparr>num_value = Finite False 4503599627370496 (- 49),
                             mode = \<lparr>div0_identity = False\<rparr>\<rparr>)"
    by simp
  from C4_mode_propagation
         [of "\<lparr>num_value = dbl_3, mode = \<lparr>div0_identity = False\<rparr>\<rparr>"
             "Num \<lparr>num_value = dbl_5, mode = default_mode\<rparr>"
             "\<lparr>num_value = dbl_2, mode = \<lparr>div0_identity = False\<rparr>\<rparr>"
             "\<lparr>div0_identity = False\<rparr>" "\<lparr>num_value = dbl_3, mode = \<lparr>div0_identity = False\<rparr>\<rparr>"
             "PyInt 3" dbl_3 "\<lparr>num_value = dbl_5, mode = default_mode\<rparr>"] rsub
  have 2: "mode \<lparr>num_value = dbl_2, mode = \<lparr>div0_identity = False\<rparr>\<rparr> =
     mode \<lparr>num_value = dbl_3, mode = \<lparr>div0_identity = False\<rparr>\<rparr>"
    by blast
  from three c add 1 rsub 2 show ?thesis
    by blast
qed

lemma as_num_TypeError_iff:
  "(\<exists>msg. as_num d m = Inl (TypeError msg)) \<longleftrightarrow> \<not> is_number_like d"
  by (cases d) (auto split: sum.splits dest: py_float_error)

lemma as_num_Inr_number_like: "as_num d m = Inr c \<Longrightarrow> is_number_like d"
  by (cases d) auto

lemma as_num_other:
  "\<not> is_number_like d \<Longrightarrow>
   as_num d m =
     Inl (TypeError (''Unsupported type: <class '' @ [CHR 0x27] @ type_name d @ [CHR 0x27] @ ''>''))"
  by (cases d) auto

lemma truediv_not_TypeError:
  "as_num d (mode a) = Inr c \<Longrightarrow> MazieNum_truediv a d \<noteq> Inl (TypeError msg)"
  by (simp add: truediv_coerced)

text \<open>
  C6. Each of the eight binary methods raises TypeError exactly when its operand is neither
  a plain number (\<open>int\<close>, \<open>bool\<close>, \<open>float\<close>) nor a MazieNum; the error is the one
  \<open>_as_num\<close> raises, and it is raised before anything else is looked at.
\<close>

theorem C6_unsupported_operand_type:
  "((\<exists>msg. MazieNum_add a d = Inl (TypeError msg)) \<longleftrightarrow> \<not> is_number_like d) \<and>
   ((\<exists>msg. MazieNum_sub a d = Inl (TypeError msg)) \<longleftrightarrow> \<not> is_number_like d) \<and>
   ((\<exists>msg. MazieNum_mul a d = Inl (TypeError msg)) \<longleftrightarrow> \<not> is_number_like d) \<and>
   ((\<exists>msg. MazieNum_truediv a d = Inl (TypeError msg)) \<longleftrightarrow> \<not> is_number_like d) \<and>
   ((\<exists>msg. MazieNum_radd a d = Inl (TypeError msg)) \<longleftrightarrow> \<not> is_number_like d) \<and>
   ((\<exists>msg. MazieNum_rsub a d = Inl (TypeError msg)) \<longleftrightarrow> \<not> is_number_like d) \<and>
   ((\<exists>msg. MazieNum_rmul a d = Inl (TypeError msg)) \<longleftrightarrow> \<not> is_number_like d) \<and>
   ((\<exists>msg. MazieNum_rtruediv a d = Inl (TypeError msg)) \<longleftrightarrow> \<not> is_number_like d)"
proof (cases "as_num d (mode a)")
  case (Inl e)
  then have ops: "MazieNum_add a d = Inl e" "MazieNum_sub a d = Inl e" "MazieNum_mul a d = Inl e"
      "MazieNum_truediv a d = Inl e" "MazieNum_radd a d = Inl e" "MazieNum_rsub a d = Inl e"
      "MazieNum_rmul a d = Inl e" "MazieNum_rtruediv a d = Inl e"
    by (simp_all add: MazieNum_add_def MazieNum_sub_def MazieNum_mul_def MazieNum_truediv_def
        MazieNum_radd_def MazieNum_rsub_def MazieNum_rmul_def MazieNum_rtruediv_def)
  from Inl as_num_TypeError_iff [of d "mode a"]
  have "(\<exists>msg. e = TypeError msg) \<longleftrightarrow> \<not> is_number_like d"
    by simp
  with ops show ?thesis
    by simp
next
  case (Inr c)
  then have nl: "is_number_like d"
    by (rule as_num_Inr_number_like)
  have m: "mode c = mode a"
    using Inr by (rule as_num_Inr_mode)
  have self: "as_num (Num a) (mode c) = Inr \<lparr>num_value = num_value a, mode = mode c\<rparr>"
    by simp
  have "MazieNum_add a d \<noteq> Inl (TypeError msg)" "MazieNum_sub a d \<noteq> Inl (TypeError msg)"
      "MazieNum_mul a d \<noteq> Inl (TypeError msg)" "MazieNum_truediv a d \<noteq> Inl (TypeError msg)"
      "MazieNum_radd a d \<noteq> Inl (TypeError msg)" "MazieNum_rsub a d \<noteq> Inl (TypeError msg)"
      "MazieNum_rmul a d \<noteq> Inl (TypeError msg)" "MazieNum_rtruediv a d \<noteq> Inl (TypeError msg)"
    for msg
    using Inr
    by (simp_all add: add_coerced sub_coerced mul_coerced truediv_coerced
        radd_coerced rsub_coerced rmul_coerced rtruediv_coerced)
  with nl show ?thesis
    by simp
qed

theorem C6_unsupported_operand_type_witness:
  "\<not> is_number_like (PyStr ''5'') \<and>
   (\<exists>msg. MazieNum_add \<lparr>num_value = dbl_5, mode = default_mode\<rparr> (PyStr ''5'') = Inl (TypeError msg)) \<and>
   (\<exists>msg. MazieNum_rtruediv \<lparr>num_value = dbl_5, mode = default_mode\<rparr> PyNone = Inl (TypeError msg)) \<and>
   is_number_like (Plain (PyBool True)) \<and>
   \<not> (\<exists>msg. MazieNum_mul \<lparr>num_value = dbl_5, mode = default_mode\<rparr> (Plain (PyBool True)) =
           Inl (TypeError msg))"
  using C6_unsupported_operand_type [of "\<lparr>num_value = dbl_5, mode = default_mode\<rparr>" "PyStr ''5''"]
    C6_unsupported_operand_type [of "\<lparr>num_value = dbl_5, mode = default_mode\<rparr>" PyNone]
    C6_unsupported_operand_type [of "\<lparr>num_value = dbl_5, mode = default_mode\<rparr>" "Plain (PyBool True)"]
  by simp

lemma MazieNum_eq_overflow:
  "MazieNum_eq a (Plain (PyInt (2 ^ 1024))) =
     Inl (OverflowError ''int too large to convert to float'')"
  using float_of_int_overflow by simp

text \<open>
  C7. \<open>__eq__\<close> compares two MazieNums by the float comparison of their values, whatever
  their modes; it compares a MazieNum with a plain number \<open>x\<close> by the float comparison
  of its value with \<open>float(x)\<close>; and for an operand of any other type it returns
  \<open>False\<close>, without raising.
\<close>

theorem C7_equality:
  "MazieNum_eq a (Num b) = Inr (feq (num_value a) (num_value b)) \<and>
   MazieNum_eq \<lparr>num_value = x, mode = m1\<rparr> (Num \<lparr>num_value = y, mode = m2\<rparr>) = Inr (feq x y) \<and>
   (py_float p = Inr v \<longrightarrow> MazieNum_eq a (Plain p) = Inr (feq (num_value a) v)) \<and>
   (\<not> is_number_like d \<longrightarrow> MazieNum_eq a d = Inr False)"
proof (intro conjI impI)
  show "MazieNum_eq a (Num b) = Inr (feq (num_value a) (num_value b))"
    by simp
next
  show "MazieNum_eq \<lparr>num_value = x, mode = m1\<rparr> (Num \<lparr>num_value = y, mode = m2\<rparr>) = Inr (feq x y)"
    by simp
next
  assume "py_float p = Inr v"
  then show "MazieNum_eq a (Plain p) = Inr (feq (num_value a) v)"
    by simp
next
  assume "\<not> is_number_like d"
  then show "MazieNum_eq a d = Inr False"
    by (cases d) simp_all
qed

theorem C7_equality_witness:
  "py_float (PyInt 5) = Inr dbl_5 \<and>
   MazieNum_eq \<lparr>num_value = dbl_5, mode = default_mode\<rparr> (Plain (PyInt 5)) = Inr True \<and>
   MazieNum_eq \<lparr>num_value = dbl_5, mode = default_mode\<rparr>
       (Num \<lparr>num_value = dbl_5, mode = \<lparr>div0_identity = False\<rparr>\<rparr>) = Inr True \<and>
   MazieNum_eq \<lparr>num_value = dbl_5, mode = default_mode\<rparr>
       (Num \<lparr>num_value = dbl_3, mode = default_mode\<rparr>) = Inr False \<and>
   \<not> is_number_like (PyStr ''5'') \<and>
   MazieNum_eq \<lparr>num_value = dbl_5, mode = default_mode\<rparr> (PyStr ''5'') = Inr False"
proof -
  have five: "py_float (PyInt 5) = Inr dbl_5"
    by (simp add: float_eval)
  have e55: "feq dbl_5 dbl_5"
    by (simp add: dbl_5_def)
  have e53: "\<not> feq dbl_5 dbl_3"
    by (simp add: dbl_5_def dbl_3_def align_def signed_def)
  have nl: "\<not> is_number_like (PyStr ''5'')"
    by simp
  note t = C7_equality [of "\<lparr>num_value = dbl_5, mode = default_mode\<rparr>" _ dbl_5
      default_mode _ "\<lparr>div0_identity = False\<rparr>" "PyInt 5" dbl_5 "PyStr ''5''"]
  from t [of "\<lparr>num_value = dbl_5, mode = default_mode\<rparr>" dbl_5] five e55
  have 1: "MazieNum_eq \<lparr>num_value = dbl_5, mode = default_mode\<rparr> (Plain (PyInt 5)) = Inr True"
    by simp
  from t [of "\<lparr>num_value = dbl_5, mode = default_mode\<rparr>" dbl_5] e55
  have 2: "MazieNum_eq \<lparr>num_value = dbl_5, mode = default_mode\<rparr>
       (Num \<lparr>num_value = dbl_5, mode = \<lparr>div0_identity = False\<rparr>\<rparr>) = Inr True"
    by simp
  from t [of "\<lparr>num_value = dbl_3, mode = default_mode\<rparr>" dbl_3] e53
  have 3: "MazieNum_eq \<lparr>num_value = dbl_5, mode = default_mode\<rparr>
       (Num \<lparr>num_value = dbl_3, mode = default_mode\<rparr>) = Inr False"
    by simp
  from t [of "\<lparr>num_value = dbl_5, mode = default_mode\<rparr>" dbl_5] nl
  have 4: "MazieNum_eq \<lparr>num_value = dbl_5, mode = default_mode\<rparr> (PyStr ''5'') = Inr False"
    by blast
  from five 1 2 3 nl 4 show ?thesis
    by blast
qed

lemma py_float_int_finite: "py_float (PyInt i) = Inr v \<Longrightarrow> is_finite v"
  using float_of_int_cases [of i] by auto

text \<open>
  C8. For plain numbers \<open>x\<close> and \<open>y\<close> whose float values are finite,
  \<open>M(x) + y == M(y) + x\<close> and \<open>M(x) * y == M(y) * x\<close> return \<open>True\<close>, whatever
  modes the two MazieNums were made with. The same holds with the plain operand on the
  left (the reflected methods).
\<close>

theorem C8_commutative_operations:
  assumes "py_float x = Inr u" and "py_float y = Inr v" and "is_finite u" and "is_finite v"
  shows "\<exists>a b r1 r2 r3 r4.
           M x mx = Inr a \<and> M y my = Inr b \<and>
           MazieNum_add a (Plain y) = Inr r1 \<and> MazieNum_add b (Plain x) = Inr r2 \<and>
           MazieNum_eq r1 (Num r2) = Inr True \<and>
           MazieNum_mul a (Plain y) = Inr r3 \<and> MazieNum_mul b (Plain x) = Inr r4 \<and>
           MazieNum_eq r3 (Num r4) = Inr True \<and>
           MazieNum_radd a (Plain y) = Inr \<lparr>num_value = num_value r2, mode = mode a\<rparr> \<and>
           MazieNum_rmul a (Plain y) = Inr \<lparr>num_value = num_value r4, mode = mode a\<rparr>"
proof -
  define ma where "ma = (case mx of None \<Rightarrow> default_mode | Some m \<Rightarrow> m)"
  define mb where "mb = (case my of None \<Rightarrow> default_mode | Some m \<Rightarrow> m)"
  have a: "M x mx = Inr \<lparr>num_value = u, mode = ma\<rparr>"
    using assms(1) by (simp add: M_def ma_def)
  have b: "M y my = Inr \<lparr>num_value = v, mode = mb\<rparr>"
    using assms(2) by (simp add: M_def mb_def)
  have cy: "as_num (Plain y) (mode \<lparr>num_value = u, mode = ma\<rparr>) = Inr \<lparr>num_value = v, mode = ma\<rparr>"
    using assms(2) by simp
  have cx: "as_num (Plain x) (mode \<lparr>num_value = v, mode = mb\<rparr>) = Inr \<lparr>num_value = u, mode = mb\<rparr>"
    using assms(1) by simp
  have add_eq: "feq (fadd u v) (fadd v u)"
    using assms(3,4) by (simp add: fadd_commute [of v u] feq_refl fadd_finite_not_nan)
  have mul_eq: "feq (fmul u v) (fmul v u)"
    using assms(3,4) by (simp add: fmul_commute [of v u] feq_refl fmul_finite_not_nan)
  have "MazieNum_add \<lparr>num_value = u, mode = ma\<rparr> (Plain y) = Inr \<lparr>num_value = fadd u v, mode = ma\<rparr>"
    using add_coerced [OF cy] by simp
  moreover have "MazieNum_add \<lparr>num_value = v, mode = mb\<rparr> (Plain x) = Inr \<lparr>num_value = fadd v u, mode = mb\<rparr>"
    using add_coerced [OF cx] by simp
  moreover have "MazieNum_eq \<lparr>num_value = fadd u v, mode = ma\<rparr> (Num \<lparr>num_value = fadd v u, mode = mb\<rparr>) = Inr True"
    using add_eq by simp
  moreover have "MazieNum_mul \<lparr>num_value = u, mode = ma\<rparr> (Plain y) = Inr \<lparr>num_value = fmul u v, mode = ma\<rparr>"
    using mul_coerced [OF cy] by simp
  moreover have "MazieNum_mul \<lparr>num_value = v, mode = mb\<rparr> (Plain x) = Inr \<lparr>num_value = fmul v u, mode = mb\<rparr>"
    using mul_coerced [OF cx] by simp
  moreover have "MazieNum_eq \<lparr>num_value = fmul u v, mode = ma\<rparr> (Num \<lparr>num_value = fmul v u, mode = mb\<rparr>) = Inr True"
    using mul_eq by simp
  moreover have "MazieNum_radd \<lparr>num_value = u, mode = ma\<rparr> (Plain y) = Inr \<lparr>num_value = fadd v u, mode = ma\<rparr>"
    using radd_coerced [OF cy] by simp
  moreover have "MazieNum_rmul \<lparr>num_value = u, mode = ma\<rparr> (Plain y) = Inr \<lparr>num_value = fmul v u, mode = ma\<rparr>"
    using rmul_coerced [OF cy] by simp
  ultimately show ?thesis
    using a b by simp
qed

theorem C8_commutative_operations_witness:
  "py_float (PyInt 3) = Inr dbl_3 \<and> py_float (PyFloat dbl_5) = Inr dbl_5 \<and>
   is_finite dbl_3 \<and> is_finite dbl_5 \<and>
   (\<exists>a b r1 r2 r3 r4.
      M (PyInt 3) None = Inr a \<and> M (PyFloat dbl_5) (Some \<lparr>div0_identity = False\<rparr>) = Inr b \<and>
      MazieNum_add a (Plain (PyFloat dbl_5)) = Inr r1 \<and> MazieNum_add b (Plain (PyInt 3)) = Inr r2 \<and>
      MazieNum_eq r1 (Num r2) = Inr True \<and>
      MazieNum_mul a (Plain (PyFloat dbl_5)) = Inr r3 \<and> MazieNum_mul b (Plain (PyInt 3)) = Inr r4 \<and>
      MazieNum_eq r3 (Num r4) = Inr True \<and>
      MazieNum_radd a (Plain (PyFloat dbl_5)) = Inr \<lparr>num_value = num_value r2, mode = mode a\<rparr> \<and>
      MazieNum_rmul a (Plain (PyFloat dbl_5)) = Inr \<lparr>num_value = num_value r4, mode = mode a\<rparr>)"
proof -
  have three: "py_float (PyInt 3) = Inr dbl_3"
    by (simp add: float_eval)
  have five: "py_float (PyFloat dbl_5) = Inr dbl_5"
    by simp
  have f3: "is_finite dbl_3"
    by (simp add: dbl_3_def)
  have f5: "is_finite dbl_5"
    by (simp add: dbl_5_def)
  from three five f3 f5
    C8_commutative_operations [OF three five f3 f5, of None "Some \<lparr>div0_identity = False\<rparr>"]
  show ?thesis
    by blast
qed

lemma as_num_value_mode_independent:
  "map_sum id num_value (as_num d m) = map_sum id num_value (as_num d m')"
  by (cases d) (auto split: sum.splits)

lemma as_num_shape:
  "(\<exists>e. \<forall>m. as_num d m = Inl e) \<or> (\<exists>v. \<forall>m. as_num d m = Inr \<lparr>num_value = v, mode = m\<rparr>)"
proof (cases d)
  case (Plain p)
  then show ?thesis
    by (cases "py_float p") simp_all
qed simp_all

text \<open>
  C9. The value of the result of \<open>__add__\<close>, \<open>__sub__\<close>, \<open>__mul__\<close>, \<open>__neg__\<close>, of the
  reflected \<open>__radd__\<close>, \<open>__rsub__\<close>, \<open>__rmul__\<close>, and of a division whose divisor has a
  non-zero value, is the same under any two modes of the MazieNum it is invoked on and
  any two modes of a MazieNum operand: it is the float operation on the two values. (An
  operand that cannot be coerced raises the same error under every mode.) On a zero
  divisor the mode does decide the outcome.
\<close>

theorem C9_value_independent_of_mode:
  "map_sum id num_value (MazieNum_add \<lparr>num_value = x, mode = m1\<rparr> (Num \<lparr>num_value = y, mode = m2\<rparr>)) =
     Inr (fadd x y) \<and>
   map_sum id num_value (MazieNum_sub \<lparr>num_value = x, mode = m1\<rparr> (Num \<lparr>num_value = y, mode = m2\<rparr>)) =
     Inr (fsub x y) \<and>
   map_sum id num_value (MazieNum_mul \<lparr>num_value = x, mode = m1\<rparr> (Num \<lparr>num_value = y, mode = m2\<rparr>)) =
     Inr (fmul x y) \<and>
   num_value (MazieNum_neg \<lparr>num_value = x, mode = m1\<rparr>) = fneg x \<and>
   (\<not> feq y pos_zero \<longrightarrow>
      map_sum id num_value
        (MazieNum_truediv \<lparr>num_value = x, mode = m1\<rparr> (Num \<lparr>num_value = y, mode = m2\<rparr>)) =
      Inr (fdiv x y)) \<and>
   map_sum id num_value (MazieNum_add \<lparr>num_value = x, mode = m1\<rparr> d) =
     map_sum id num_value (MazieNum_add \<lparr>num_value = x, mode = m1'\<rparr> d) \<and>
   map_sum id num_value (MazieNum_sub \<lparr>num_value = x, mode = m1\<rparr> d) =
     map_sum id num_value (MazieNum_sub \<lparr>num_value = x, mode = m1'\<rparr> d) \<and>
   map_sum id num_value (MazieNum_mul \<lparr>num_value = x, mode = m1\<rparr> d) =
     map_sum id num_value (MazieNum_mul \<lparr>num_value = x, mode = m1'\<rparr> d) \<and>
   map_sum id num_value (MazieNum_radd \<lparr>num_value = x, mode = m1\<rparr> d) =
     map_sum id num_value (MazieNum_radd \<lparr>num_value = x, mode = m1'\<rparr> d) \<and>
   map_sum id num_value (MazieNum_rsub \<lparr>num_value = x, mode = m1\<rparr> d) =
     map_sum id num_value (MazieNum_rsub \<lparr>num_value = x, mode = m1'\<rparr> d) \<and>
   map_sum id num_value (MazieNum_rmul \<lparr>num_value = x, mode = m1\<rparr> d) =
     map_sum id num_value (MazieNum_rmul \<lparr>num_value = x, mode = m1'\<rparr> d) \<and>
   (as_num d m1 = Inr c \<longrightarrow> \<not> feq (num_value c) pos_zero \<longrightarrow>
      map_sum id num_value (MazieNum_truediv \<lparr>num_value = x, mode = m1\<rparr> d) =
        Inr (fdiv x (num_value c)) \<and>
      map_sum id num_value (MazieNum_truediv \<lparr>num_value = x, mode = m1'\<rparr> d) =
        Inr (fdiv x (num_value c))) \<and>
   (feq y pos_zero \<longrightarrow>
      MazieNum_truediv \<lparr>num_value = x, mode = \<lparr>div0_identity = True\<rparr>\<rparr>
          (Num \<lparr>num_value = y, mode = m2\<rparr>) =
        Inr \<lparr>num_value = x, mode = \<lparr>div0_identity = True\<rparr>\<rparr> \<and>
      MazieNum_truediv \<lparr>num_value = x, mode = \<lparr>div0_identity = False\<rparr>\<rparr>
          (Num \<lparr>num_value = y, mode = m2\<rparr>) =
        Inl (ZeroDivisionError ''division by zero''))"
proof -
  have same: "map_sum id num_value (MazieNum_add \<lparr>num_value = x, mode = m1\<rparr> d) =
       map_sum id num_value (MazieNum_add \<lparr>num_value = x, mode = m1'\<rparr> d) \<and>
     map_sum id num_value (MazieNum_sub \<lparr>num_value = x, mode = m1\<rparr> d) =
       map_sum id num_value (MazieNum_sub \<lparr>num_value = x, mode = m1'\<rparr> d) \<and>
     map_sum id num_value (MazieNum_mul \<lparr>num_value = x, mode = m1\<rparr> d) =
       map_sum id num_value (MazieNum_mul \<lparr>num_value = x, mode = m1'\<rparr> d) \<and>
     map_sum id num_value (MazieNum_radd \<lparr>num_value = x, mode = m1\<rparr> d) =
       map_sum id num_value (MazieNum_radd \<lparr>num_value = x, mode = m1'\<rparr> d) \<and>
     map_sum id num_value (MazieNum_rsub \<lparr>num_value = x, mode = m1\<rparr> d) =
       map_sum id num_value (MazieNum_rsub \<lparr>num_value = x, mode = m1'\<rparr> d) \<and>
     map_sum id num_value (MazieNum_rmul \<lparr>num_value = x, mode = m1\<rparr> d) =
       map_sum id num_value (MazieNum_rmul \<lparr>num_value = x, mode = m1'\<rparr> d)"
    using as_num_shape [of d]
  proof (elim disjE exE)
    fix e
    assume "\<forall>m. as_num d m = Inl e"
    then have "as_num d m1 = Inl e" "as_num d m1' = Inl e"
      by simp_all
    then show ?thesis
      by (simp add: MazieNum_add_def MazieNum_sub_def MazieNum_mul_def
          MazieNum_radd_def MazieNum_rsub_def MazieNum_rmul_def)
  next
    fix v
    assume "\<forall>m. as_num d m = Inr \<lparr>num_value = v, mode = m\<rparr>"
    then have "as_num d m1 = Inr \<lparr>num_value = v, mode = m1\<rparr>"
        "as_num d m1' = Inr \<lparr>num_value = v, mode = m1'\<rparr>"
      by simp_all
    then show ?thesis
      by (simp add: MazieNum_add_def MazieNum_sub_def MazieNum_mul_def
          MazieNum_radd_def MazieNum_rsub_def MazieNum_rmul_def)
  qed
  have quot: "as_num d m1 = Inr c \<longrightarrow> \<not> feq (num_value c) pos_zero \<longrightarrow>
      map_sum id num_value (MazieNum_truediv \<lparr>num_value = x, mode = m1\<rparr> d) =
        Inr (fdiv x (num_value c)) \<and>
      map_sum id num_value (MazieNum_truediv \<lparr>num_value = x, mode = m1'\<rparr> d) =
        Inr (fdiv x (num_value c))"
  proof (intro impI)
    assume c: "as_num d m1 = Inr c" and nz: "\<not> feq (num_value c) pos_zero"
    show "map_sum id num_value (MazieNum_truediv \<lparr>num_value = x, mode = m1\<rparr> d) =
        Inr (fdiv x (num_value c)) \<and>
      map_sum id num_value (MazieNum_truediv \<lparr>num_value = x, mode = m1'\<rparr> d) =
        Inr (fdiv x (num_value c))"
      using as_num_shape [of d]
    proof (elim disjE exE)
      fix e
      assume "\<forall>m. as_num d m = Inl e"
      with c show ?thesis
        by simp
    next
      fix v
      assume ok: "\<forall>m. as_num d m = Inr \<lparr>num_value = v, mode = m\<rparr>"
      then have ok1: "as_num d m1 = Inr \<lparr>num_value = v, mode = m1\<rparr>"
        and ok2: "as_num d m1' = Inr \<lparr>num_value = v, mode = m1'\<rparr>"
        by simp_all
      from ok1 c have v: "num_value c = v"
        by auto
      from ok1 ok2 nz v show ?thesis
        by (simp add: MazieNum_truediv_def float_truediv_def)
    qed
  qed
  have direct: "map_sum id num_value (MazieNum_add \<lparr>num_value = x, mode = m1\<rparr> (Num \<lparr>num_value = y, mode = m2\<rparr>)) =
       Inr (fadd x y)"
    "map_sum id num_value (MazieNum_sub \<lparr>num_value = x, mode = m1\<rparr> (Num \<lparr>num_value = y, mode = m2\<rparr>)) =
       Inr (fsub x y)"
    "map_sum id num_value (MazieNum_mul \<lparr>num_value = x, mode = m1\<rparr> (Num \<lparr>num_value = y, mode = m2\<rparr>)) =
       Inr (fmul x y)"
    "num_value (MazieNum_neg \<lparr>num_value = x, mode = m1\<rparr>) = fneg x"
    "\<not> feq y pos_zero \<longrightarrow>
      map_sum id num_value
        (MazieNum_truediv \<lparr>num_value = x, mode = m1\<rparr> (Num \<lparr>num_value = y, mode = m2\<rparr>)) =
      Inr (fdiv x y)"
    "feq y pos_zero \<longrightarrow>
      MazieNum_truediv \<lparr>num_value = x, mode = \<lparr>div0_identity = True\<rparr>\<rparr>
          (Num \<lparr>num_value = y, mode = m2\<rparr>) =
        Inr \<lparr>num_value = x, mode = \<lparr>div0_identity = True\<rparr>\<rparr> \<and>
      MazieNum_truediv \<lparr>num_value = x, mode = \<lparr>div0_identity = False\<rparr>\<rparr>
          (Num \<lparr>num_value = y, mode = m2\<rparr>) =
        Inl (ZeroDivisionError ''division by zero'')"
    by (simp_all add: MazieNum_add_def MazieNum_sub_def MazieNum_mul_def MazieNum_neg_def
        MazieNum_truediv_def float_truediv_def)
  from direct same quot show ?thesis
    by blast
qed


theorem C9_value_independent_of_mode_witness:
  "\<not> feq dbl_2 pos_zero \<and>
   as_num (Plain (PyFloat dbl_2)) default_mode = Inr \<lparr>num_value = dbl_2, mode = default_mode\<rparr> \<and>
   map_sum id num_value
     (MazieNum_truediv \<lparr>num_value = dbl_10, mode = default_mode\<rparr>
        (Num \<lparr>num_value = dbl_2, mode = default_mode\<rparr>)) = Inr dbl_5 \<and>
   map_sum id num_value
     (MazieNum_truediv \<lparr>num_value = dbl_10, mode = \<lparr>div0_identity = False\<rparr>\<rparr>
        (Plain (PyFloat dbl_2))) = Inr dbl_5 \<and>
   feq neg_zero pos_zero \<and>
   MazieNum_truediv \<lparr>num_value = dbl_10, mode = \<lparr>div0_identity = True\<rparr>\<rparr>
       (Num \<lparr>num_value = neg_zero, mode = default_mode\<rparr>) =
     Inr \<lparr>num_value = dbl_10, mode = \<lparr>div0_identity = True\<rparr>\<rparr> \<and>
   MazieNum_truediv \<lparr>num_value = dbl_10, mode = \<lparr>div0_identity = False\<rparr>\<rparr>
       (Num \<lparr>num_value = neg_zero, mode = default_mode\<rparr>) =
     Inl (ZeroDivisionError ''division by zero'')"
proof -
  have nz: "\<not> feq dbl_2 pos_zero"
    by (simp add: dbl_2_def feq_zero_iff)
  have q: "fdiv dbl_10 dbl_2 = dbl_5"
    by (simp add: float_eval)
  have c: "as_num (Plain (PyFloat dbl_2)) default_mode = Inr \<lparr>num_value = dbl_2, mode = default_mode\<rparr>"
    by simp
  note t1 = C9_value_independent_of_mode
      [of dbl_10 default_mode dbl_2 default_mode "Plain (PyFloat dbl_2)"
          "\<lparr>div0_identity = False\<rparr>" "\<lparr>num_value = dbl_2, mode = default_mode\<rparr>"]
  note t2 = C9_value_independent_of_mode
      [of dbl_10 default_mode neg_zero default_mode "Plain (PyFloat dbl_2)"
          "\<lparr>div0_identity = False\<rparr>" "\<lparr>num_value = dbl_2, mode = default_mode\<rparr>"]
  from t1 nz q have 1: "map_sum id num_value
     (MazieNum_truediv \<lparr>num_value = dbl_10, mode = default_mode\<rparr>
        (Num \<lparr>num_value = dbl_2, mode = default_mode\<rparr>)) = Inr dbl_5"
    by simp
  from t1 c nz q have 2: "map_sum id num_value
     (MazieNum_truediv \<lparr>num_value = dbl_10, mode = \<lparr>div0_identity = False\<rparr>\<rparr>
        (Plain (PyFloat dbl_2))) = Inr dbl_5"
    by simp
  from t2 feq_neg_zero have 3: "MazieNum_truediv \<lparr>num_value = dbl_10, mode = \<lparr>div0_identity = True\<rparr>\<rparr>
       (Num \<lparr>num_value = neg_zero, mode = default_mode\<rparr>) =
     Inr \<lparr>num_value = dbl_10, mode = \<lparr>div0_identity = True\<rparr>\<rparr>"
    and 4: "MazieNum_truediv \<lparr>num_value = dbl_10, mode = \<lparr>div0_identity = False\<rparr>\<rparr>
       (Num \<lparr>num_value = neg_zero, mode = default_mode\<rparr>) =
     Inl (ZeroDivisionError ''division by zero'')"
    by blast+
  from nz c 1 2 feq_neg_zero 3 4 show ?thesis
    by blast
qed

text \<open>
  C10. \<open>M(x)\<close> stores exactly \<open>float(x)\<close> and \<open>unwrap\<close> returns the stored value:
  \<open>unwrap(M(x))\<close> is \<open>float(x)\<close>, whatever the mode. (Where \<open>float(x)\<close> raises, on an
  \<open>int\<close> beyond the doubles, \<open>M(x)\<close> raises the same error.)
\<close>

theorem C10_construct_unwrap:
  "map_sum id unwrap (M x md) = py_float x \<and>
   map_sum id num_value (M x md) = py_float x \<and>
   (py_float x = Inr v \<longrightarrow> (\<exists>n. M x md = Inr n \<and> unwrap n = v \<and> num_value n = v)) \<and>
   (\<exists>n. M (PyFloat v) md = Inr n \<and> unwrap n = v) \<and>
   unwrap \<lparr>num_value = v, mode = m\<rparr> = v"
proof -
  have 1: "map_sum id unwrap (M x md) = py_float x"
    by (cases "py_float x") (simp_all add: M_def unwrap_def)
  have 2: "map_sum id num_value (M x md) = py_float x"
    by (cases "py_float x") (simp_all add: M_def)
  have 3: "py_float x = Inr v \<longrightarrow> (\<exists>n. M x md = Inr n \<and> unwrap n = v \<and> num_value n = v)"
    by (simp add: M_def unwrap_def)
  have 4: "\<exists>n. M (PyFloat v) md = Inr n \<and> unwrap n = v"
    by (simp add: M_def unwrap_def)
  have 5: "unwrap \<lparr>num_value = v, mode = m\<rparr> = v"
    by (simp add: unwrap_def)
  from 1 2 3 4 5 show ?thesis
    by blast
qed

theorem C10_construct_unwrap_witness:
  "py_float (PyInt 5) = Inr dbl_5 \<and>
   (\<exists>n. M (PyInt 5) None = Inr n \<and> unwrap n = dbl_5 \<and> num_value n = dbl_5) \<and>
   map_sum id unwrap (M (PyInt (2 ^ 1024)) None) =
     Inl (OverflowError ''int too large to convert to float'')"
proof -
  have five: "py_float (PyInt 5) = Inr dbl_5"
    by (simp add: float_eval)
  have big: "py_float (PyInt (2 ^ 1024)) = Inl (OverflowError ''int too large to convert to float'')"
    using float_of_int_overflow by simp
  from C10_construct_unwrap [of "PyInt 5" None dbl_5] five
  have 1: "\<exists>n. M (PyInt 5) None = Inr n \<and> unwrap n = dbl_5 \<and> num_value n = dbl_5"
    by blast
  from C10_construct_unwrap [of "PyInt (2 ^ 1024)" None dbl_5] big
  have 2: "map_sum id unwrap (M (PyInt (2 ^ 1024)) None) =
     Inl (OverflowError ''int too large to convert to float'')"
    by simp
  from five 1 2 show ?thesis
    by blast
qed

end
